theory Spec2Isabelle
  imports Complex_Main "HOL-Library.Multiset" "HOL-Library.Log_Nat"
begin

section \<open>Data model\<close>

text \<open>
  The measurement pipeline of \<^verbatim>\<open>measure_dimensions.py\<close> is the single function
  \<^verbatim>\<open>calculate_dimensions\<close>.  Its decision logic starts once \<^verbatim>\<open>cv2.findContours\<close> has
  returned the contours (line 33); everything before that (reading the image, with the
  early return on an unreadable file, and the filters) is image processing inside OpenCV,
  and everything after line 90 draws, saves and displays the result.

  A contour is a numpy array of points.  The program never looks at the points itself: it
  only asks OpenCV for the enclosed area (\<^verbatim>\<open>cv2.contourArea\<close>) and for the minimum-area
  rotated rectangle (\<^verbatim>\<open>cv2.minAreaRect\<close>, a tuple \<^verbatim>\<open>(center, (w, h), angle)\<close>).  Both
  library results are therefore carried with the contour.

  Python floats are modelled as real numbers.  The quotients of lines 56, 63, 86 and 87 are
  exact quotients: the rectangle's sides are single-precision values, so the rounding of
  the quotient of line 56 cannot move it across 1.5 or 1.7, and the other three only
  feed the reported lengths.  The product of line 77 is different: it is compared with an area, and the area
  of the largest contour can be exactly 1.1 times the area of the reference, where the
  rounding of the product decides the branch.  That product is therefore rounded as
  binary64 arithmetic rounds it.
\<close>

type_synonym rotated_rect = "(real \<times> real) \<times> (real \<times> real) \<times> real"

record contour =
  points :: "(int \<times> int) list"
  area :: real
  box :: rotated_rect

definition contourArea :: "contour \<Rightarrow> real" where
  "contourArea cnt = area cnt"

definition minAreaRect :: "contour \<Rightarrow> rotated_rect" where
  "minAreaRect cnt = box cnt"

text \<open>
  The two reported failures print a message and return (lines 35-37 and 67-69); the
  others are the Python exceptions that the division, the indexing and the tuple unpacking
  of the function can raise.
\<close>

datatype error =
    InsufficientContoursError
  | ReferenceNotFoundError
  | ZeroDivisionError
  | IndexError
  | ValueError

text \<open>What a successful run prints and draws: the reference, the scale, the target and
  the two sorted lengths (lines 61-63, 74-78, 86-88).\<close>

record measurement =
  ref_contour :: contour
  pixels_per_cm :: real
  target_contour :: contour
  dim1 :: real
  dim2 :: real

section \<open>Python primitives\<close>

text \<open>Float division raises on a zero divisor; list indexing raises out of range.\<close>

definition py_truediv :: "real \<Rightarrow> real \<Rightarrow> error + real" where
  "py_truediv a b = (if b = 0 then Inl ZeroDivisionError else Inr (a / b))"

definition py_index :: "'a list \<Rightarrow> nat \<Rightarrow> error + 'a" where
  "py_index xs i = (if i < length xs then Inr (xs ! i) else Inl IndexError)"

text \<open>
  Float multiplication is the exact product rounded to binary64: to the nearest number with
  a significand of 53 bits, a tie going to the even significand.  \<open>float_exponent x\<close> is the
  exponent \<open>e\<close> of a positive \<open>x\<close>, the one with \<^verbatim>\<open>2^e <= x < 2^(e+1)\<close>.  Overflow and subnormal
  numbers are left out: the areas of an image are far from both.  \<open>float_1_1\<close> is the
  binary64 value of the literal \<^verbatim>\<open>1.1\<close>, \<^verbatim>\<open>0x1.199999999999ap+0\<close>.
\<close>

definition float_exponent :: "real \<Rightarrow> int" where
  "float_exponent x =
     (if 1 \<le> x then bitlen \<lfloor>x\<rfloor> - 1 else - bitlen (\<lceil>1 / x\<rceil> - 1))"

definition round_half_even :: "real \<Rightarrow> int" where
  "round_half_even q =
     (if q - of_int \<lfloor>q\<rfloor> < 1 / 2 then \<lfloor>q\<rfloor>
      else if 1 / 2 < q - of_int \<lfloor>q\<rfloor> then \<lfloor>q\<rfloor> + 1
      else if even \<lfloor>q\<rfloor> then \<lfloor>q\<rfloor> else \<lfloor>q\<rfloor> + 1)"

definition round_binary64 :: "real \<Rightarrow> real" where
  "round_binary64 x =
     (if x = 0 then 0
      else sgn x * of_int (round_half_even (\<bar>x\<bar> / 2 powi (float_exponent \<bar>x\<bar> - 52)))
             * 2 powi (float_exponent \<bar>x\<bar> - 52))"

definition float_1_1 :: real where
  "float_1_1 = 2476979795053773 / 2 ^ 51"

definition py_float_mul :: "real \<Rightarrow> real \<Rightarrow> real" where
  "py_float_mul a b = round_binary64 (a * b)"

section \<open>The pipeline\<close>

text \<open>Line 40: \<^verbatim>\<open>sorted(contours, key=cv2.contourArea, reverse=True)\<close>.  Python's sort is
  stable also with \<^verbatim>\<open>reverse=True\<close>, which is a stable ascending sort on the negated key.\<close>

definition sorted_contours :: "contour list \<Rightarrow> contour list" where
  "sorted_contours contours = sort_key (\<lambda>cnt. - contourArea cnt) contours"

text \<open>Lines 48-65: the loop over the sorted contours.  The result is \<open>None\<close> when the loop
  ends without a match (\<^verbatim>\<open>pixels_per_cm is None\<close>).  The division of line 56 is inside the
  \<^verbatim>\<open>try\<close>; the division of line 63 is not.\<close>

fun find_reference :: "contour list \<Rightarrow> real \<Rightarrow> error + (contour \<times> real) option" where
  "find_reference [] ref_object_width_cm = Inr None"
| "find_reference (cnt # rest) ref_object_width_cm =
    (case snd (minAreaRect cnt) of ((w, h), angle) \<Rightarrow>
      (case py_truediv (max w h) (min w h) of
         Inl ZeroDivisionError \<Rightarrow> find_reference rest ref_object_width_cm
       | Inl e \<Rightarrow> Inl e
       | Inr aspect_ratio \<Rightarrow>
           if 1.5 < aspect_ratio \<and> aspect_ratio < 1.7
           then (case py_truediv (min w h) ref_object_width_cm of
                   Inl e \<Rightarrow> Inl e
                 | Inr ppc \<Rightarrow> Inr (Some (cnt, ppc)))
           else find_reference rest ref_object_width_cm))"

text \<open>Lines 74-78: the largest contour, or the second one when the area of the largest is
  less than the float product \<^verbatim>\<open>cv2.contourArea(ref_contour) * 1.1\<close>.\<close>

definition select_target :: "contour list \<Rightarrow> contour \<Rightarrow> error + contour" where
  "select_target contours ref =
    (case py_index contours 0 of
       Inl e \<Rightarrow> Inl e
     | Inr target \<Rightarrow>
         if contourArea target < py_float_mul (contourArea ref) float_1_1
         then py_index contours 1
         else Inr target)"

text \<open>Lines 82-88: both sides of the target's rectangle divided by the scale, then
  \<^verbatim>\<open>dim1, dim2 = sorted([target_width_cm, target_height_cm])\<close>.\<close>

definition target_dimensions :: "contour \<Rightarrow> real \<Rightarrow> error + real \<times> real" where
  "target_dimensions target ppc =
    (case snd (minAreaRect target) of ((target_w_px, target_h_px), angle) \<Rightarrow>
      (case py_truediv target_w_px ppc of
         Inl e \<Rightarrow> Inl e
       | Inr target_width_cm \<Rightarrow>
          (case py_truediv target_h_px ppc of
             Inl e \<Rightarrow> Inl e
           | Inr target_height_cm \<Rightarrow>
              (case sort [target_width_cm, target_height_cm] of
                 [d1, d2] \<Rightarrow> Inr (d1, d2)
               | _ \<Rightarrow> Inl ValueError))))"

text \<open>Lines 35-90, from the contours that \<^verbatim>\<open>cv2.findContours\<close> returned.\<close>

definition calculate_dimensions :: "contour list \<Rightarrow> real \<Rightarrow> error + measurement" where
  "calculate_dimensions found ref_object_width_cm =
    (if length found < 2 then Inl InsufficientContoursError
     else
       let contours = sorted_contours found in
       case find_reference contours ref_object_width_cm of
         Inl e \<Rightarrow> Inl e
       | Inr None \<Rightarrow> Inl ReferenceNotFoundError
       | Inr (Some (ref, ppc)) \<Rightarrow>
          (case select_target contours ref of
             Inl e \<Rightarrow> Inl e
           | Inr target \<Rightarrow>
              (case target_dimensions target ppc of
                 Inl e \<Rightarrow> Inl e
               | Inr (d1, d2) \<Rightarrow>
                   Inr \<lparr>ref_contour = ref, pixels_per_cm = ppc,
                        target_contour = target, dim1 = d1, dim2 = d2\<rparr>)))"

section \<open>Vocabulary of the properties\<close>

text \<open>The short and the long side of a contour's fitted rectangle, and the reference test:
  a rectangle with a non-zero short side whose long side divided by the short side lies
  strictly between 1.5 and 1.7.\<close>

definition short_side :: "contour \<Rightarrow> real" where
  "short_side cnt = min (fst (fst (snd (minAreaRect cnt)))) (snd (fst (snd (minAreaRect cnt))))"

definition long_side :: "contour \<Rightarrow> real" where
  "long_side cnt = max (fst (fst (snd (minAreaRect cnt)))) (snd (fst (snd (minAreaRect cnt))))"

definition in_band :: "contour \<Rightarrow> bool" where
  "in_band cnt \<longleftrightarrow>
     short_side cnt \<noteq> 0 \<and> 1.5 < long_side cnt / short_side cnt
       \<and> long_side cnt / short_side cnt < 1.7"

section \<open>Example scenes\<close>

text \<open>Contours of a few concrete scenes, with the area and the rectangle that OpenCV
  reports for them: a card of ratio 1.6, a sheet of ratio 2, two slabs of ratio exactly 1.5
  and exactly 1.7, a small square coin, a blob slightly larger than the card, and a
  degenerate sliver whose rectangle has a side of length zero; then a scene of three
  rectangles in which the largest has exactly 1.1 times the area of the card-shaped one.\<close>

definition bank_card :: contour where
  "bank_card = \<lparr>points = [(10, 10), (170, 10), (170, 110), (10, 110)], area = 16000,
           box = ((90, 60), (160, 100), 90)\<rparr>"

definition sheet :: contour where
  "sheet = \<lparr>points = [(200, 200), (500, 200), (500, 350), (200, 350)], area = 45000,
            box = ((350, 275), (300, 150), 90)\<rparr>"

definition slab15 :: contour where
  "slab15 = \<lparr>points = [(600, 0), (840, 0), (840, 160), (600, 160)], area = 38400,
             box = ((720, 80), (160, 240), 0)\<rparr>"

definition slab17 :: contour where
  "slab17 = \<lparr>points = [(600, 300), (770, 300), (770, 400), (600, 400)], area = 17000,
             box = ((685, 350), (170, 100), 90)\<rparr>"

definition coin :: contour where
  "coin = \<lparr>points = [(700, 500), (750, 500), (750, 550), (700, 550)], area = 2000,
           box = ((725, 525), (50, 50), 90)\<rparr>"

definition blob :: contour where
  "blob = \<lparr>points = [(0, 400), (150, 400), (150, 540), (0, 540)], area = 17000,
           box = ((75, 470), (150, 140), 90)\<rparr>"

definition sliver :: contour where
  "sliver = \<lparr>points = [(900, 0), (900, 50)], area = 0,
             box = ((900, 25), (0, 50), 90)\<rparr>"

definition small_card :: contour where
  "small_card = \<lparr>points = [(0, 0), (100, 0), (100, 60), (0, 60)], area = 6000,
                 box = ((50, 30), (100, 60), 0)\<rparr>"

definition wide_tile :: contour where
  "wide_tile = \<lparr>points = [(200, 0), (310, 0), (310, 60), (200, 60)], area = 6600,
                box = ((255, 30), (110, 60), 0)\<rparr>"

definition mid_tile :: contour where
  "mid_tile = \<lparr>points = [(0, 100), (80, 100), (80, 178), (0, 178)], area = 6240,
               box = ((40, 139), (80, 78), 0)\<rparr>"

section \<open>The reference loop, step by step\<close>

text \<open>One iteration of the loop in terms of the reference test: a contour that passes
  ends the loop (raising when the declared width is zero), any other contour, the
  degenerate ones included, is passed over.\<close>

lemma find_reference_Cons:
  "find_reference (cnt # rest) rw =
     (if in_band cnt
      then (if rw = 0 then Inl ZeroDivisionError else Inr (Some (cnt, short_side cnt / rw)))
      else find_reference rest rw)"
  by (auto simp: py_truediv_def in_band_def short_side_def long_side_def split: prod.splits)

declare find_reference.simps(2) [simp del]

lemma find_reference_Some:
  "find_reference cs rw = Inr (Some (r, s)) \<Longrightarrow>
     \<exists>pre post. cs = pre @ r # post \<and> in_band r \<and> (\<forall>c\<in>set pre. \<not> in_band c)
        \<and> rw \<noteq> 0 \<and> s = short_side r / rw"
proof (induction cs)
  case Nil
  then show ?case by simp
next
  case (Cons c cs)
  show ?case
  proof (cases "in_band c")
    case True
    with Cons.prems have "rw \<noteq> 0" "r = c" "s = short_side c / rw"
      by (auto simp: find_reference_Cons split: if_splits)
    with True have "c # cs = [] @ r # cs \<and> in_band r \<and> (\<forall>c\<in>set []. \<not> in_band c)
        \<and> rw \<noteq> 0 \<and> s = short_side r / rw" by simp
    then show ?thesis by blast
  next
    case False
    with Cons.prems have "find_reference cs rw = Inr (Some (r, s))"
      by (simp add: find_reference_Cons)
    from Cons.IH [OF this] obtain pre post where
      h: "cs = pre @ r # post" "in_band r" "\<forall>c\<in>set pre. \<not> in_band c" "rw \<noteq> 0"
         "s = short_side r / rw" by blast
    with False have "c # cs = (c # pre) @ r # post \<and> in_band r
        \<and> (\<forall>x\<in>set (c # pre). \<not> in_band x) \<and> rw \<noteq> 0 \<and> s = short_side r / rw"
      by simp
    then show ?thesis by blast
  qed
qed

lemma find_reference_first:
  "rw \<noteq> 0 \<Longrightarrow> in_band r \<Longrightarrow> \<forall>c\<in>set pre. \<not> in_band c \<Longrightarrow>
     find_reference (pre @ r # post) rw = Inr (Some (r, short_side r / rw))"
  by (induction pre) (simp_all add: find_reference_Cons)

lemma find_reference_None:
  "\<forall>c\<in>set cs. \<not> in_band c \<Longrightarrow> find_reference cs rw = Inr None"
  by (induction cs) (simp_all add: find_reference_Cons)

lemma find_reference_None_iff:
  "find_reference cs rw = Inr None \<longleftrightarrow> (\<forall>c\<in>set cs. \<not> in_band c)"
  by (induction cs) (simp_all add: find_reference_Cons)

lemma find_reference_Inl:
  "find_reference cs rw = Inl e \<Longrightarrow> e = ZeroDivisionError \<and> rw = 0"
  by (induction cs) (auto simp: find_reference_Cons split: if_splits)

lemma find_reference_skip:
  "\<not> in_band cnt \<Longrightarrow> find_reference (pre @ cnt # rest) rw = find_reference (pre @ rest) rw"
  by (induction pre) (simp_all add: find_reference_Cons)

lemma zero_side_not_in_band:
  "fst (fst (snd (minAreaRect cnt))) = 0 \<or> snd (fst (snd (minAreaRect cnt))) = 0
     \<Longrightarrow> \<not> in_band cnt"
  by (auto simp: in_band_def short_side_def long_side_def min_def max_def split: if_splits)

section \<open>Sorting, target selection and conversion\<close>

lemma sorted_contours_length: "length (sorted_contours cs) = length cs"
  by (simp add: sorted_contours_def)

lemma sorted_contours_mset: "mset (sorted_contours cs) = mset cs"
  by (simp add: sorted_contours_def)

lemma sorted_contours_set: "set (sorted_contours cs) = set cs"
  by (simp add: sorted_contours_def)

lemma sorted_contours_desc:
  "sorted_wrt (\<lambda>a b. contourArea b \<le> contourArea a) (sorted_contours cs)"
proof -
  have "sorted (map (\<lambda>cnt. - contourArea cnt) (sorted_contours cs))"
    by (simp add: sorted_contours_def)
  then show ?thesis by (simp add: sorted_map)
qed

lemma sorted_contours_two:
  "2 \<le> length cs \<Longrightarrow> \<exists>a b rest. sorted_contours cs = a # b # rest"
proof -
  assume "2 \<le> length cs"
  then have "2 \<le> length (sorted_contours cs)" by (simp add: sorted_contours_length)
  then show ?thesis
    by (auto simp: Suc_le_length_iff numeral_2_eq_2)
qed

lemma select_target_two:
  "select_target (a # b # rest) ref =
     Inr (if contourArea a < py_float_mul (contourArea ref) float_1_1 then b else a)"
  by (simp add: select_target_def py_index_def)

lemma target_dimensions_ok:
  "ppc \<noteq> 0 \<Longrightarrow> target_dimensions t ppc =
     Inr (min (fst (fst (snd (minAreaRect t))) / ppc) (snd (fst (snd (minAreaRect t))) / ppc),
          max (fst (fst (snd (minAreaRect t))) / ppc) (snd (fst (snd (minAreaRect t))) / ppc))"
  by (auto simp: target_dimensions_def py_truediv_def split: prod.splits)

lemma target_dimensions_zero:
  "target_dimensions t 0 = Inl ZeroDivisionError"
  by (auto simp: target_dimensions_def py_truediv_def split: prod.splits)

section \<open>The whole run\<close>

lemma calculate_dimensions_Inr:
  assumes "calculate_dimensions cs rw = Inr res"
  shows "2 \<le> length cs \<and> rw \<noteq> 0
    \<and> (\<exists>pre post. sorted_contours cs = pre @ ref_contour res # post
          \<and> (\<forall>c\<in>set pre. \<not> in_band c))
    \<and> in_band (ref_contour res)
    \<and> pixels_per_cm res = short_side (ref_contour res) / rw
    \<and> (\<exists>a b rest. sorted_contours cs = a # b # rest
          \<and> target_contour res =
              (if contourArea a < py_float_mul (contourArea (ref_contour res)) float_1_1
               then b else a))
    \<and> target_dimensions (target_contour res) (pixels_per_cm res) = Inr (dim1 res, dim2 res)"
proof -
  from assms have len: "2 \<le> length cs"
    by (auto simp: calculate_dimensions_def split: if_splits)
  from assms len obtain r ppc where fr: "find_reference (sorted_contours cs) rw = Inr (Some (r, ppc))"
    by (auto simp: calculate_dimensions_def Let_def split: sum.splits option.splits)
  from assms len fr obtain t where st: "select_target (sorted_contours cs) r = Inr t"
    by (auto simp: calculate_dimensions_def Let_def split: sum.splits)
  from assms len fr st obtain d1 d2 where td: "target_dimensions t ppc = Inr (d1, d2)"
    by (auto simp: calculate_dimensions_def Let_def split: sum.splits)
  from assms len fr st td have res:
    "res = \<lparr>ref_contour = r, pixels_per_cm = ppc, target_contour = t, dim1 = d1, dim2 = d2\<rparr>"
    by (simp add: calculate_dimensions_def Let_def)
  from find_reference_Some [OF fr] obtain pre post where
    dec: "sorted_contours cs = pre @ r # post" "in_band r" "\<forall>c\<in>set pre. \<not> in_band c"
         "rw \<noteq> 0" "ppc = short_side r / rw" by blast
  from sorted_contours_two [OF len] obtain a b rest where
    ab: "sorted_contours cs = a # b # rest" by blast
  with st have t: "t = (if contourArea a < py_float_mul (contourArea r) float_1_1 then b else a)"
    by (simp add: select_target_two)
  from dec(1,3) have "\<exists>pre post. sorted_contours cs = pre @ ref_contour res # post
          \<and> (\<forall>c\<in>set pre. \<not> in_band c)"
    unfolding res by auto
  moreover from ab t have "\<exists>a b rest. sorted_contours cs = a # b # rest
          \<and> target_contour res =
              (if contourArea a < py_float_mul (contourArea (ref_contour res)) float_1_1
               then b else a)"
    unfolding res by simp
  ultimately show ?thesis
    using len dec(2,4,5) td unfolding res by simp
qed

lemma calculate_dimensions_succeeds:
  assumes "2 \<le> length cs" "rw \<noteq> 0" "\<exists>c\<in>set cs. in_band c"
  shows "\<exists>res. calculate_dimensions cs rw = Inr res"
proof -
  from assms(3) have "find_reference (sorted_contours cs) rw \<noteq> Inr None"
    by (simp add: find_reference_None_iff sorted_contours_set)
  moreover have "\<And>e. find_reference (sorted_contours cs) rw \<noteq> Inl e"
    using find_reference_Inl assms(2) by blast
  ultimately obtain r ppc where
    fr: "find_reference (sorted_contours cs) rw = Inr (Some (r, ppc))"
    by (cases "find_reference (sorted_contours cs) rw") auto
  from find_reference_Some [OF fr] have "in_band r" "ppc = short_side r / rw" by auto
  with assms(2) have ppc: "ppc \<noteq> 0" by (simp add: in_band_def)
  from sorted_contours_two [OF assms(1)] obtain a b rest where
    ab: "sorted_contours cs = a # b # rest" by blast
  show ?thesis
    using assms(1) fr ab ppc
    by (simp add: calculate_dimensions_def Let_def select_target_two target_dimensions_ok)
qed

text \<open>The failures of a run, each with the condition under which it occurs.\<close>

lemma calculate_dimensions_Inl:
  assumes "calculate_dimensions cs rw = Inl e"
  shows "(e = InsufficientContoursError \<and> length cs < 2)
       \<or> (e = ReferenceNotFoundError \<and> 2 \<le> length cs \<and> (\<forall>c\<in>set cs. \<not> in_band c))
       \<or> (e = ZeroDivisionError \<and> 2 \<le> length cs \<and> rw = 0 \<and> (\<exists>c\<in>set cs. in_band c))"
proof (cases "length cs < 2")
  case True
  with assms show ?thesis by (simp add: calculate_dimensions_def)
next
  case False
  then have len: "2 \<le> length cs" by simp
  show ?thesis
  proof (cases "\<exists>c\<in>set cs. in_band c")
    case no: False
    then have "find_reference (sorted_contours cs) rw = Inr None"
      by (simp add: find_reference_None sorted_contours_set)
    with assms len no show ?thesis by (simp add: calculate_dimensions_def)
  next
    case ex: True
    show ?thesis
    proof (cases "rw = 0")
      case True
      from ex have "find_reference (sorted_contours cs) rw \<noteq> Inr None"
        by (simp add: find_reference_None_iff sorted_contours_set)
      moreover have "\<And>r s. find_reference (sorted_contours cs) rw \<noteq> Inr (Some (r, s))"
        using find_reference_Some True by blast
      ultimately obtain e' where e': "find_reference (sorted_contours cs) rw = Inl e'"
        by (cases "find_reference (sorted_contours cs) rw") auto
      from find_reference_Inl [OF e'] have "e' = ZeroDivisionError" by simp
      with assms len e' ex True show ?thesis by (simp add: calculate_dimensions_def)
    next
      case False
      from calculate_dimensions_succeeds [OF len False ex] assms show ?thesis by auto
    qed
  qed
qed

section \<open>The example scenes, evaluated\<close>

lemma in_band_examples:
  "in_band bank_card" "\<not> in_band sheet" "\<not> in_band slab15" "\<not> in_band slab17"
  by (simp_all add: in_band_def short_side_def long_side_def minAreaRect_def
        bank_card_def sheet_def slab15_def slab17_def)

lemma sorted_example:
  "sorted_contours [bank_card, slab17, sheet, slab15] = [sheet, slab15, slab17, bank_card]"
  by (simp add: sorted_contours_def contourArea_def bank_card_def sheet_def slab15_def slab17_def)

text \<open>The float products of line 77 for the two reference areas of the scenes: the first
  is exact, the second is rounded up, above the exact product 6600.\<close>

lemma product_16000: "py_float_mul 16000 float_1_1 = 17600"
  by code_simp

lemma product_6000: "py_float_mul 6000 float_1_1 = 7256776743321601 / 1099511627776"
  by code_simp

text \<open>Two more products, one with a result below 1: Python prints them as
  \<^verbatim>\<open>26400.000000000004\<close> and \<^verbatim>\<open>0.55\<close>, whose exact values are these.\<close>

lemma product_24000: "py_float_mul 24000 float_1_1 = 7256776743321601 / 274877906944"
  by code_simp

lemma product_half: "py_float_mul 0.5 float_1_1 = 2476979795053773 / 4503599627370496"
  by code_simp

lemma area_examples:
  "contourArea bank_card = 16000" "contourArea sheet = 45000" "contourArea coin = 2000"
  "contourArea blob = 17000" "contourArea small_card = 6000" "contourArea wide_tile = 6600"
  "contourArea mid_tile = 6240"
  by (simp_all add: contourArea_def bank_card_def sheet_def coin_def blob_def
        small_card_def wide_tile_def mid_tile_def)

lemma short_side_bank_card: "short_side bank_card = 100"
  by (simp add: short_side_def minAreaRect_def bank_card_def)

lemma find_reference_example:
  "find_reference [sheet, slab15, slab17, bank_card] 5 = Inr (Some (bank_card, 20))"
  by (simp add: find_reference_Cons in_band_examples short_side_bank_card)

lemma run_example:
  "calculate_dimensions [bank_card, slab17, sheet, slab15] 5 =
     Inr \<lparr>ref_contour = bank_card, pixels_per_cm = 20, target_contour = sheet,
          dim1 = 7.5, dim2 = 15\<rparr>"
proof -
  have st: "select_target [sheet, slab15, slab17, bank_card] bank_card = Inr sheet"
    by (simp add: select_target_two area_examples product_16000)
  have td: "target_dimensions sheet 20 = Inr (7.5, 15)"
    by (simp add: target_dimensions_ok) (simp add: minAreaRect_def sheet_def)
  show ?thesis
    by (simp add: calculate_dimensions_def sorted_example find_reference_example st td)
qed

lemma sorted_card_coin: "sorted_contours [bank_card, coin] = [bank_card, coin]"
  by (simp add: sorted_contours_def contourArea_def bank_card_def coin_def)

lemma find_reference_card_coin:
  "find_reference [bank_card, coin] 5 = Inr (Some (bank_card, 20))"
  by (simp add: find_reference_Cons in_band_examples short_side_bank_card)

lemma run_card_coin:
  "calculate_dimensions [bank_card, coin] 5 =
     Inr \<lparr>ref_contour = bank_card, pixels_per_cm = 20, target_contour = coin,
          dim1 = 2.5, dim2 = 2.5\<rparr>"
proof -
  have st: "select_target [bank_card, coin] bank_card = Inr coin"
    by (simp add: select_target_two area_examples product_16000)
  have td: "target_dimensions coin 20 = Inr (2.5, 2.5)"
    by (simp add: target_dimensions_ok) (simp add: minAreaRect_def coin_def)
  show ?thesis
    by (simp add: calculate_dimensions_def sorted_card_coin find_reference_card_coin st td)
qed

lemma in_band_tiles:
  "in_band small_card" "\<not> in_band wide_tile" "\<not> in_band mid_tile"
  by (simp_all add: in_band_def short_side_def long_side_def minAreaRect_def
        small_card_def wide_tile_def mid_tile_def)

lemma sorted_tiles:
  "sorted_contours [small_card, wide_tile, mid_tile] = [wide_tile, mid_tile, small_card]"
  by (simp add: sorted_contours_def contourArea_def small_card_def wide_tile_def mid_tile_def)

lemma find_reference_tiles:
  "find_reference [wide_tile, mid_tile, small_card] 6 = Inr (Some (small_card, 10))"
  by (simp add: find_reference_Cons in_band_tiles)
     (simp add: short_side_def minAreaRect_def small_card_def)

section \<open>Properties of the pipeline\<close>

text \<open>
  C1.  The reference is the first contour, in the order of descending area, whose rectangle
  has a long side over short side strictly between 1.5 and 1.7: every contour before it in
  that order fails the test, its own ratio is strictly inside the interval (so never
  exactly 1.5 or 1.7), and a run on at least two contours with a non-zero declared width
  does find a reference as soon as one contour passes the test.
\<close>

theorem reference_is_first_in_band:
  "(calculate_dimensions cs rw = Inr res \<longrightarrow>
      (\<exists>pre post. sorted_contours cs = pre @ ref_contour res # post
          \<and> (\<forall>c\<in>set pre. \<not> in_band c))
      \<and> short_side (ref_contour res) \<noteq> 0
      \<and> 1.5 < long_side (ref_contour res) / short_side (ref_contour res)
      \<and> long_side (ref_contour res) / short_side (ref_contour res) < 1.7)
   \<and> sorted_wrt (\<lambda>a b. contourArea b \<le> contourArea a) (sorted_contours cs)
   \<and> mset (sorted_contours cs) = mset cs
   \<and> (2 \<le> length cs \<and> rw \<noteq> 0 \<and> (\<exists>c\<in>set cs. in_band c) \<longrightarrow>
        (\<exists>res. calculate_dimensions cs rw = Inr res))"
proof -
  have "(\<exists>pre post. sorted_contours cs = pre @ ref_contour res # post
          \<and> (\<forall>c\<in>set pre. \<not> in_band c))
      \<and> short_side (ref_contour res) \<noteq> 0
      \<and> 1.5 < long_side (ref_contour res) / short_side (ref_contour res)
      \<and> long_side (ref_contour res) / short_side (ref_contour res) < 1.7"
    if "calculate_dimensions cs rw = Inr res"
    using calculate_dimensions_Inr [OF that] by (simp add: in_band_def)
  then show ?thesis
    using sorted_contours_desc [of cs] sorted_contours_mset [of cs]
      calculate_dimensions_succeeds [of cs rw]
    by blast
qed

theorem reference_is_first_in_band_witness:
  "calculate_dimensions [bank_card, slab17, sheet, slab15] 5 =
     Inr \<lparr>ref_contour = bank_card, pixels_per_cm = 20, target_contour = sheet,
          dim1 = 7.5, dim2 = 15\<rparr>
   \<and> sorted_contours [bank_card, slab17, sheet, slab15] = [sheet, slab15, slab17, bank_card]
   \<and> long_side slab15 / short_side slab15 = 1.5
   \<and> long_side slab17 / short_side slab17 = 1.7
   \<and> (\<exists>pre post. [sheet, slab15, slab17, bank_card] = pre @ bank_card # post
          \<and> (\<forall>c\<in>set pre. \<not> in_band c))
   \<and> 1.5 < long_side bank_card / short_side bank_card \<and> long_side bank_card / short_side bank_card < 1.7
   \<and> (\<exists>res. calculate_dimensions [bank_card, slab17, sheet, slab15] 5 = Inr res)"
proof -
  have "long_side slab15 / short_side slab15 = 1.5"
    "long_side slab17 / short_side slab17 = 1.7"
    by (simp_all add: long_side_def short_side_def minAreaRect_def slab15_def slab17_def)
  then show ?thesis
    using reference_is_first_in_band [of "[bank_card, slab17, sheet, slab15]" 5
        "\<lparr>ref_contour = bank_card, pixels_per_cm = 20, target_contour = sheet,
          dim1 = 7.5, dim2 = 15\<rparr>"]
      run_example sorted_example
    by simp
qed

text \<open>
  C2.  A run that found a reference (it has at least two contours and its loop returned
  one) goes on to a measurement.  Its sorted list starts with the contour of largest area
  followed by the contour of largest area among the others; the target is the second of
  them when the area of the first is strictly less than the float product of the
  reference's area and 1.1, and the first of them otherwise.  The float product can be
  larger than the exact one, so that a largest contour of exactly 1.1 times the area of the
  reference can give way to the second.
\<close>

theorem target_is_largest_or_second:
  assumes "2 \<le> length cs"
    and "find_reference (sorted_contours cs) rw = Inr (Some (ref, ppc))"
  shows "\<exists>a b rest d1 d2. sorted_contours cs = a # b # rest
     \<and> mset (a # b # rest) = mset cs
     \<and> (\<forall>c\<in>set (b # rest). contourArea c \<le> contourArea a)
     \<and> (\<forall>c\<in>set rest. contourArea c \<le> contourArea b)
     \<and> select_target (sorted_contours cs) ref =
          Inr (if contourArea a < py_float_mul (contourArea ref) float_1_1 then b else a)
     \<and> calculate_dimensions cs rw =
          Inr \<lparr>ref_contour = ref, pixels_per_cm = ppc,
               target_contour =
                 (if contourArea a < py_float_mul (contourArea ref) float_1_1 then b else a),
               dim1 = d1, dim2 = d2\<rparr>"
proof -
  from sorted_contours_two [OF assms(1)] obtain a b rest where
    ab: "sorted_contours cs = a # b # rest" by blast
  define t where "t = (if contourArea a < py_float_mul (contourArea ref) float_1_1 then b else a)"
  from ab have st: "select_target (sorted_contours cs) ref = Inr t"
    by (simp add: select_target_two t_def)
  from find_reference_Some [OF assms(2)] have "in_band ref" "rw \<noteq> 0" "ppc = short_side ref / rw"
    by auto
  then have "ppc \<noteq> 0" by (simp add: in_band_def)
  from target_dimensions_ok [OF this, of t] obtain d1 d2 where
    td: "target_dimensions t ppc = Inr (d1, d2)" by blast
  from assms st td have run: "calculate_dimensions cs rw =
      Inr \<lparr>ref_contour = ref, pixels_per_cm = ppc, target_contour = t, dim1 = d1, dim2 = d2\<rparr>"
    by (simp add: calculate_dimensions_def)
  from sorted_contours_desc [of cs] ab
  have "\<forall>c\<in>set (b # rest). contourArea c \<le> contourArea a"
    "\<forall>c\<in>set rest. contourArea c \<le> contourArea b"
    by simp_all
  moreover from sorted_contours_mset [of cs] ab have "mset (a # b # rest) = mset cs"
    by simp
  ultimately show ?thesis using ab st run unfolding t_def by blast
qed

text \<open>Both branches: the sheet, much larger than the card, is kept as the target; next to
  the coin the card itself is the largest contour, and the coin becomes the target.\<close>

theorem target_is_largest_or_second_witness:
  "find_reference (sorted_contours [bank_card, slab17, sheet, slab15]) 5
     = Inr (Some (bank_card, 20))
   \<and> sorted_contours [bank_card, slab17, sheet, slab15] = [sheet, slab15, slab17, bank_card]
   \<and> \<not> contourArea sheet < py_float_mul (contourArea bank_card) float_1_1
   \<and> select_target (sorted_contours [bank_card, slab17, sheet, slab15]) bank_card = Inr sheet
   \<and> find_reference (sorted_contours [bank_card, coin]) 5 = Inr (Some (bank_card, 20))
   \<and> sorted_contours [bank_card, coin] = [bank_card, coin]
   \<and> contourArea bank_card < py_float_mul (contourArea bank_card) float_1_1
   \<and> select_target (sorted_contours [bank_card, coin]) bank_card = Inr coin"
proof -
  have f1: "find_reference (sorted_contours [bank_card, slab17, sheet, slab15]) 5
     = Inr (Some (bank_card, 20))"
    by (simp add: sorted_example find_reference_example)
  have f2: "find_reference (sorted_contours [bank_card, coin]) 5 = Inr (Some (bank_card, 20))"
    by (simp add: sorted_card_coin find_reference_card_coin)
  have n1: "\<not> contourArea sheet < py_float_mul (contourArea bank_card) float_1_1"
    by (simp add: area_examples product_16000)
  have l2: "contourArea bank_card < py_float_mul (contourArea bank_card) float_1_1"
    by (simp add: area_examples product_16000)
  from target_is_largest_or_second [OF _ f1] obtain a b rest where
    h1: "sorted_contours [bank_card, slab17, sheet, slab15] = a # b # rest"
        "select_target (sorted_contours [bank_card, slab17, sheet, slab15]) bank_card =
          Inr (if contourArea a < py_float_mul (contourArea bank_card) float_1_1 then b else a)"
    by auto
  from h1(1) have "a = sheet" by (simp add: sorted_example)
  with h1(2) n1 have s1:
    "select_target (sorted_contours [bank_card, slab17, sheet, slab15]) bank_card = Inr sheet"
    by simp
  from target_is_largest_or_second [OF _ f2] obtain a' b' rest' where
    h2: "sorted_contours [bank_card, coin] = a' # b' # rest'"
        "select_target (sorted_contours [bank_card, coin]) bank_card =
          Inr (if contourArea a' < py_float_mul (contourArea bank_card) float_1_1 then b' else a')"
    by auto
  from h2(1) have "a' = bank_card" "b' = coin" by (simp_all add: sorted_card_coin)
  with h2(2) l2 have s2: "select_target (sorted_contours [bank_card, coin]) bank_card = Inr coin"
    by simp
  show ?thesis using f1 f2 n1 l2 s1 s2 sorted_example sorted_card_coin by simp
qed

text \<open>
  C2, as first stated with the exact product, fails on the scene of the three rectangles:
  the largest has exactly 1.1 times the area of the reference, so its area is not strictly
  less than 1.1 times that area, and yet the target is the second-largest contour, since
  the float product 6000.0 * 1.1 is rounded up above 6600.
\<close>

theorem target_at_exact_ratio_counterexample:
  "calculate_dimensions [small_card, wide_tile, mid_tile] 6 =
     Inr \<lparr>ref_contour = small_card, pixels_per_cm = 10, target_contour = mid_tile,
          dim1 = 7.8, dim2 = 8\<rparr>
   \<and> sorted_contours [small_card, wide_tile, mid_tile] = [wide_tile, mid_tile, small_card]
   \<and> \<not> contourArea wide_tile < contourArea small_card * 1.1
   \<and> mid_tile \<noteq> wide_tile"
proof -
  have st: "select_target [wide_tile, mid_tile, small_card] small_card = Inr mid_tile"
    by (simp add: select_target_two area_examples product_6000)
  have td: "target_dimensions mid_tile 10 = Inr (7.8, 8)"
    by (simp add: target_dimensions_ok) (simp add: minAreaRect_def mid_tile_def)
  have run: "calculate_dimensions [small_card, wide_tile, mid_tile] 6 =
     Inr \<lparr>ref_contour = small_card, pixels_per_cm = 10, target_contour = mid_tile,
          dim1 = 7.8, dim2 = 8\<rparr>"
    by (simp add: calculate_dimensions_def sorted_tiles find_reference_tiles st td)
  have ne: "mid_tile \<noteq> wide_tile" by (simp add: mid_tile_def wide_tile_def)
  have nl: "\<not> contourArea wide_tile < contourArea small_card * 1.1"
    by (simp add: area_examples)
  show ?thesis using run sorted_tiles nl ne by simp
qed

text \<open>
  C3.  With a declared width of 5.0, a reference whose rectangle has a short side of 100
  pixels and a target whose rectangle measures 300 by 150 pixels (in either order), the
  scale is 20 and the result is the ascending pair 7.5 and 15.
\<close>

theorem end_to_end_example:
  assumes "calculate_dimensions cs 5 = Inr res"
    and "short_side (ref_contour res) = 100"
    and "fst (snd (minAreaRect (target_contour res))) = (300, 150)
       \<or> fst (snd (minAreaRect (target_contour res))) = (150, 300)"
  shows "pixels_per_cm res = 20 \<and> dim1 res = 7.5 \<and> dim2 res = 15"
proof -
  from calculate_dimensions_Inr [OF assms(1)]
  have sc: "pixels_per_cm res = short_side (ref_contour res) / 5"
    and td: "target_dimensions (target_contour res) (pixels_per_cm res) = Inr (dim1 res, dim2 res)"
    by blast+
  from sc assms(2) have ppc: "pixels_per_cm res = 20" by simp
  from td assms(3) have "dim1 res = 7.5 \<and> dim2 res = 15"
    unfolding ppc by (auto simp: target_dimensions_ok)
  with ppc show ?thesis by simp
qed

theorem end_to_end_example_witness:
  "calculate_dimensions [bank_card, slab17, sheet, slab15] 5 =
     Inr \<lparr>ref_contour = bank_card, pixels_per_cm = 20, target_contour = sheet,
          dim1 = 7.5, dim2 = 15\<rparr>
   \<and> short_side bank_card = 100
   \<and> fst (snd (minAreaRect sheet)) = (300, 150)"
proof -
  have s: "short_side bank_card = 100"
    by (simp add: short_side_def minAreaRect_def bank_card_def)
  have t: "fst (snd (minAreaRect sheet)) = (300, 150)"
    by (simp add: minAreaRect_def sheet_def)
  from end_to_end_example [OF run_example] s t
  show ?thesis using run_example by simp
qed

text \<open>
  C4.  The scale of a matched reference is the short side of its rectangle, the smaller of
  the two sides, divided by the declared width, in the loop as in the whole run.
\<close>

theorem scale_is_short_side_over_width:
  "(find_reference xs rw = Inr (Some (r, s)) \<longrightarrow>
      s = min (fst (fst (snd (minAreaRect r)))) (snd (fst (snd (minAreaRect r)))) / rw)
   \<and> (calculate_dimensions cs rw = Inr res \<longrightarrow>
      pixels_per_cm res = short_side (ref_contour res) / rw
      \<and> short_side (ref_contour res) =
          min (fst (fst (snd (minAreaRect (ref_contour res)))))
              (snd (fst (snd (minAreaRect (ref_contour res))))))"
  using find_reference_Some [of xs rw r s] calculate_dimensions_Inr [of cs rw res]
  by (auto simp: short_side_def)

theorem scale_is_short_side_over_width_witness:
  "find_reference [sheet, bank_card] 5 = Inr (Some (bank_card, 20))
   \<and> calculate_dimensions [bank_card, coin] 5 =
     Inr \<lparr>ref_contour = bank_card, pixels_per_cm = 20, target_contour = coin,
          dim1 = 2.5, dim2 = 2.5\<rparr>
   \<and> short_side bank_card = 100 \<and> (20::real) = 100 / 5"
proof -
  have s: "short_side bank_card = 100"
    by (simp add: short_side_def minAreaRect_def bank_card_def)
  have fr: "find_reference [sheet, bank_card] 5 = Inr (Some (bank_card, 20))"
    by (simp add: find_reference_Cons in_band_examples s)
  from scale_is_short_side_over_width [of "[sheet, bank_card]" 5 bank_card 20
      "[bank_card, coin]"
      "\<lparr>ref_contour = bank_card, pixels_per_cm = 20, target_contour = coin,
          dim1 = 2.5, dim2 = 2.5\<rparr>"]
  show ?thesis using fr run_card_coin s by simp
qed

text \<open>
  C5.  In every successful run the first reported length is at most the second; the two
  are the target's two sides divided by the scale, whichever way round the rectangle reports
  them; and the conversion gives the same pair when the rectangle's two sides are swapped
  and its centre and angle are changed.
\<close>

theorem dimensions_ascending:
  "(calculate_dimensions cs rw = Inr res \<longrightarrow>
      dim1 res \<le> dim2 res
      \<and> {dim1 res, dim2 res} =
          {fst (fst (snd (minAreaRect (target_contour res)))) / pixels_per_cm res,
           snd (fst (snd (minAreaRect (target_contour res)))) / pixels_per_cm res})
   \<and> target_dimensions (t\<lparr>box := (c, (w, h), a)\<rparr>) ppc
       = target_dimensions (t\<lparr>box := (c', (h, w), a')\<rparr>) ppc"
proof -
  have "dim1 res \<le> dim2 res
      \<and> {dim1 res, dim2 res} =
          {fst (fst (snd (minAreaRect (target_contour res)))) / pixels_per_cm res,
           snd (fst (snd (minAreaRect (target_contour res)))) / pixels_per_cm res}"
    if run: "calculate_dimensions cs rw = Inr res"
  proof -
    from calculate_dimensions_Inr [OF run]
    have nz: "rw \<noteq> 0" and ib: "in_band (ref_contour res)"
      and sc: "pixels_per_cm res = short_side (ref_contour res) / rw"
      and td: "target_dimensions (target_contour res) (pixels_per_cm res)
                 = Inr (dim1 res, dim2 res)"
      by blast+
    from nz ib sc have "pixels_per_cm res \<noteq> 0" by (simp add: in_band_def)
    from td target_dimensions_ok [OF this, of "target_contour res"]
    have d: "dim1 res = min (fst (fst (snd (minAreaRect (target_contour res)))) / pixels_per_cm res)
                            (snd (fst (snd (minAreaRect (target_contour res)))) / pixels_per_cm res)"
      "dim2 res = max (fst (fst (snd (minAreaRect (target_contour res)))) / pixels_per_cm res)
                      (snd (fst (snd (minAreaRect (target_contour res)))) / pixels_per_cm res)"
      by simp_all
    show ?thesis unfolding d by (auto simp: min_def max_def)
  qed
  moreover have "target_dimensions (t\<lparr>box := (c, (w, h), a)\<rparr>) ppc
       = target_dimensions (t\<lparr>box := (c', (h, w), a')\<rparr>) ppc"
    by (cases "ppc = 0")
       (auto simp: target_dimensions_zero target_dimensions_ok minAreaRect_def min_def max_def)
  ultimately show ?thesis by blast
qed

theorem dimensions_ascending_witness:
  "calculate_dimensions [bank_card, slab17, sheet, slab15] 5 =
     Inr \<lparr>ref_contour = bank_card, pixels_per_cm = 20, target_contour = sheet,
          dim1 = 7.5, dim2 = 15\<rparr>
   \<and> fst (snd (minAreaRect sheet)) = (300, 150)
   \<and> (7.5::real) \<le> 15 \<and> {7.5, 15} = {300 / 20, 150 / (20::real)}"
proof -
  have t: "fst (snd (minAreaRect sheet)) = (300, 150)"
    by (simp add: minAreaRect_def sheet_def)
  from dimensions_ascending [of "[bank_card, slab17, sheet, slab15]" 5
      "\<lparr>ref_contour = bank_card, pixels_per_cm = 20, target_contour = sheet,
          dim1 = 7.5, dim2 = 15\<rparr>"]
  show ?thesis using run_example t by simp
qed

text \<open>
  C6.  A contour whose rectangle has a side of length zero is passed over by the reference
  loop wherever it stands in the list: the loop gives on the list with it what it gives on
  the list without it, without raising on it, and no run returns it as the reference.
\<close>

theorem degenerate_box_is_skipped:
  assumes "fst (fst (snd (minAreaRect cnt))) = 0 \<or> snd (fst (snd (minAreaRect cnt))) = 0"
  shows "find_reference (pre @ cnt # rest) rw = find_reference (pre @ rest) rw
     \<and> find_reference xs rw \<noteq> Inr (Some (cnt, s))
     \<and> (calculate_dimensions cs rw = Inr res \<longrightarrow> ref_contour res \<noteq> cnt)"
proof -
  from zero_side_not_in_band [OF assms] have nb: "\<not> in_band cnt" .
  then have "find_reference (pre @ cnt # rest) rw = find_reference (pre @ rest) rw"
    by (rule find_reference_skip)
  moreover from nb have "find_reference xs rw \<noteq> Inr (Some (cnt, s))"
    using find_reference_Some [of xs rw cnt s] by blast
  moreover from nb have "ref_contour res \<noteq> cnt" if "calculate_dimensions cs rw = Inr res"
    using calculate_dimensions_Inr [OF that] by auto
  ultimately show ?thesis by blast
qed

theorem degenerate_box_is_skipped_witness:
  "fst (fst (snd (minAreaRect sliver))) = 0
   \<and> find_reference ([sheet] @ sliver # [bank_card]) 5 = Inr (Some (bank_card, 20))
   \<and> find_reference ([sheet] @ [bank_card]) 5 = Inr (Some (bank_card, 20))"
proof -
  have z: "fst (fst (snd (minAreaRect sliver))) = 0"
    by (simp add: minAreaRect_def sliver_def)
  have s: "short_side bank_card = 100"
    by (simp add: short_side_def minAreaRect_def bank_card_def)
  have fr: "find_reference ([sheet] @ [bank_card]) 5 = Inr (Some (bank_card, 20))"
    by (simp add: find_reference_Cons in_band_examples s)
  from degenerate_box_is_skipped [of sliver "[sheet]" "[bank_card]" 5] z fr
  show ?thesis by simp
qed

text \<open>
  C7.  With fewer than two contours the run ends with the report that there are not enough
  contours, whatever the contours and the declared width are: nothing of the later stages
  shows in the outcome, and there is no measurement.
\<close>

theorem too_few_contours:
  assumes "length cs < 2"
  shows "calculate_dimensions cs rw = Inl InsufficientContoursError"
  using assms by (simp add: calculate_dimensions_def)

theorem too_few_contours_witness:
  "length [bank_card] < 2 \<and> calculate_dimensions [bank_card] 0 = Inl InsufficientContoursError
   \<and> find_reference [bank_card] 0 = Inl ZeroDivisionError"
proof -
  have l: "length [bank_card] < 2" by simp
  have "find_reference [bank_card] 0 = Inl ZeroDivisionError"
    by (simp add: find_reference_Cons in_band_examples)
  with too_few_contours [OF l, of 0] l show ?thesis by simp
qed

text \<open>
  C8.  When at least two contours were extracted and none of them passes the reference
  test, the loop ends without a match and the run ends with the report that the reference
  was not found: it returns there, with no measurement.
\<close>

theorem no_reference_found:
  assumes "2 \<le> length cs"
    and "\<forall>c\<in>set cs. \<not> in_band c"
  shows "find_reference (sorted_contours cs) rw = Inr None
     \<and> calculate_dimensions cs rw = Inl ReferenceNotFoundError"
proof -
  from assms(2) have "find_reference (sorted_contours cs) rw = Inr None"
    by (simp add: find_reference_None sorted_contours_set)
  with assms(1) show ?thesis by (simp add: calculate_dimensions_def)
qed

theorem no_reference_found_witness:
  "\<not> in_band slab17 \<and> \<not> in_band sheet \<and> \<not> in_band slab15
   \<and> find_reference (sorted_contours [slab17, sheet, slab15]) 5 = Inr None
   \<and> calculate_dimensions [slab17, sheet, slab15] 5 = Inl ReferenceNotFoundError"
proof -
  have l: "2 \<le> length [slab17, sheet, slab15]" by simp
  have h: "\<forall>c\<in>set [slab17, sheet, slab15]. \<not> in_band c"
    by (simp add: in_band_examples)
  from no_reference_found [OF l h, of 5] show ?thesis by (simp add: in_band_examples)
qed

text \<open>
  C8, without the condition on the number of contours, fails on a scene with the sheet
  alone: no contour passes the reference test, and the run ends with the report that there
  are not enough contours (lines 35-37), not with the one that the reference was not found.
\<close>

theorem no_reference_single_contour_counterexample:
  "\<not> in_band sheet
   \<and> calculate_dimensions [sheet] 5 = Inl InsufficientContoursError
   \<and> calculate_dimensions [sheet] 5 \<noteq> Inl ReferenceNotFoundError"
  by (simp add: in_band_examples calculate_dimensions_def)

text \<open>
  C9.  On a scene with the card and a blob that is larger than the card by less than a
  tenth, the run ends with a measurement whose target is the reference itself: the card is
  measured against itself and no failure is reported.
\<close>

theorem reference_reused_as_target:
  "calculate_dimensions [bank_card, blob] 5 =
     Inr \<lparr>ref_contour = bank_card, pixels_per_cm = 20, target_contour = bank_card,
          dim1 = 5, dim2 = 8\<rparr>
   \<and> bank_card \<noteq> blob"
proof -
  have so: "sorted_contours [bank_card, blob] = [blob, bank_card]"
    by (simp add: sorted_contours_def contourArea_def bank_card_def blob_def)
  have nb: "\<not> in_band blob"
    by (simp add: in_band_def short_side_def long_side_def minAreaRect_def blob_def)
  have fr: "find_reference [blob, bank_card] 5 = Inr (Some (bank_card, 20))"
    by (simp add: find_reference_Cons in_band_examples nb)
       (simp add: short_side_def minAreaRect_def bank_card_def)
  have st: "select_target [blob, bank_card] bank_card = Inr bank_card"
    by (simp add: select_target_two area_examples product_16000)
  have td: "target_dimensions bank_card 20 = Inr (5, 8)"
    by (simp add: target_dimensions_ok) (simp add: minAreaRect_def bank_card_def)
  have ne: "bank_card \<noteq> blob"
    by (simp add: bank_card_def blob_def)
  show ?thesis
    by (simp add: calculate_dimensions_def so fr st td ne)
qed

text \<open>
  C10.  No run ends with an index error: a run that gets past the check on the number of
  contours has a sorted list of at least two contours, so that reading its second element
  succeeds and target selection returns a contour.
\<close>

theorem second_contour_in_bounds:
  "calculate_dimensions cs rw \<noteq> Inl IndexError
   \<and> (calculate_dimensions cs rw \<noteq> Inl InsufficientContoursError \<longrightarrow>
        2 \<le> length (sorted_contours cs)
        \<and> py_index (sorted_contours cs) 1 = Inr (sorted_contours cs ! 1)
        \<and> (\<exists>t. select_target (sorted_contours cs) ref = Inr t))"
proof -
  have "calculate_dimensions cs rw \<noteq> Inl IndexError"
    using calculate_dimensions_Inl [of cs rw IndexError] by auto
  moreover have "2 \<le> length (sorted_contours cs)
        \<and> py_index (sorted_contours cs) 1 = Inr (sorted_contours cs ! 1)
        \<and> (\<exists>t. select_target (sorted_contours cs) ref = Inr t)"
    if "calculate_dimensions cs rw \<noteq> Inl InsufficientContoursError"
  proof -
    from that have len: "2 \<le> length cs"
      by (auto simp: calculate_dimensions_def split: if_splits)
    from sorted_contours_two [OF len] obtain a b rest where
      ab: "sorted_contours cs = a # b # rest" by blast
    then show ?thesis by (simp add: py_index_def select_target_two)
  qed
  ultimately show ?thesis by blast
qed

theorem second_contour_in_bounds_witness:
  "calculate_dimensions [bank_card, coin] 5 \<noteq> Inl InsufficientContoursError
   \<and> contourArea bank_card < py_float_mul (contourArea bank_card) float_1_1
   \<and> py_index (sorted_contours [bank_card, coin]) 1 = Inr coin
   \<and> select_target (sorted_contours [bank_card, coin]) bank_card = Inr coin"
proof -
  have ne: "calculate_dimensions [bank_card, coin] 5 \<noteq> Inl InsufficientContoursError"
    by (simp add: run_card_coin)
  have lt: "contourArea bank_card < py_float_mul (contourArea bank_card) float_1_1"
    by (simp add: area_examples product_16000)
  from second_contour_in_bounds [of "[bank_card, coin]" 5 bank_card] ne
  have "py_index (sorted_contours [bank_card, coin]) 1 = Inr (sorted_contours [bank_card, coin] ! 1)"
    by blast
  then have "py_index (sorted_contours [bank_card, coin]) 1 = Inr coin"
    by (simp add: sorted_card_coin)
  moreover have "select_target (sorted_contours [bank_card, coin]) bank_card = Inr coin"
    using lt by (simp add: sorted_card_coin select_target_two)
  ultimately show ?thesis using ne lt by simp
qed

end
